theory Spec2Isabelle
  imports Main "HOL-Library.Word"
begin

unbundle bit_operations_syntax

section \<open>Constants and return codes\<close>

text \<open>
  The header \<^verbatim>\<open>include/cose/sign.h\<close> uses the macros \<^verbatim>\<open>COSE_SIGNATURES_MAX\<close>,
  \<^verbatim>\<open>COSE_SIGN_HDR_MAX\<close>, \<^verbatim>\<open>COSE_SIG_HDR_MAX\<close>, \<^verbatim>\<open>COSE_HDR_FLAGS_PROTECTED\<close> and
  \<^verbatim>\<open>COSE_HDR_CONTENT_TYPE\<close>. They are defined in \<^verbatim>\<open>cose_defines.h\<close>, which is not among
  the sources, so every function below takes them as a parameter: one record holding the
  value each macro has in the build at hand.
\<close>

record cose_defines =
  COSE_SIGNATURES_MAX :: nat
  COSE_SIGN_HDR_MAX :: nat
  COSE_SIG_HDR_MAX :: nat
  COSE_HDR_FLAGS_PROTECTED :: "8 word"
  COSE_HDR_CONTENT_TYPE :: "32 word"

text \<open>
  The functions return an \<^verbatim>\<open>int\<close>: \<^verbatim>\<open>COSE_OK\<close> or a negative error code. Only the
  names \<^verbatim>\<open>COSE_OK\<close> and \<^verbatim>\<open>COSE_ERR_INVALID_PARAM\<close> occur in \<^verbatim>\<open>sign.h\<close>; the numeric
  values are not in the sources, so the codes are kept symbolic. \<open>CapacityExceeded\<close> is
  the specification's name for the code a full header bucket answers with.
\<close>

datatype cose_err = COSE_OK | COSE_ERR_INVALID_PARAM | CapacityExceeded

section \<open>Data model\<close>

text \<open>
  \<^verbatim>\<open>cose_hdr_t\<close> is declared in \<^verbatim>\<open>cose/hdr.h\<close>, which is not among the sources.
  \<^verbatim>\<open>sign.h\<close> reads and writes its members \<^verbatim>\<open>flags\<close>, \<^verbatim>\<open>type\<close> and \<^verbatim>\<open>v.value\<close>;
  the specification gives the rest: a header entry is
  \<^verbatim>\<open>{ key: int32, flags, type: one of {int, string, byte-slice, embedded-CBOR-item}, value }\<close>.
  The union \<^verbatim>\<open>v\<close> is a datatype with one constructor per member; a string is the
  zero-terminated text it points to, a byte slice is its bytes, and an embedded CBOR item
  is the address of the caller's \<^verbatim>\<open>cn_cbor\<close> node (the header keeps the pointer only).
\<close>

datatype cose_hdr_type =
  COSE_HDR_TYPE_INT | COSE_HDR_TYPE_TSTR | COSE_HDR_TYPE_BSTR | COSE_HDR_TYPE_CBOR

datatype cose_hdr_v =
  V_value "32 word" | V_str string | V_data "8 word list" | V_cbor nat

record cose_hdr =
  key :: "32 word"
  hdr_flags :: "8 word"
  hdr_type :: cose_hdr_type
  v :: cose_hdr_v

text \<open>
  A header bucket is the C array \<^verbatim>\<open>cose_hdr_t hdrs[N]\<close>. The model keeps the occupied
  slots, in insertion order, as a list: its length is the occupancy. The declared size
  \<open>N\<close> of the array is not part of the list; an occupancy above \<open>N\<close> stands for an entry
  written past the end of the C array.

  \<^verbatim>\<open>struct cose_signature\<close> (\<^verbatim>\<open>sign.h\<close>, lines 32 to 39). A pointer and length pair is
  the byte list it denotes; \<^verbatim>\<open>signer\<close> points to a caller-owned key (\<^verbatim>\<open>cose_key_t\<close> is
  declared in \<^verbatim>\<open>cose/key.h\<close>, not among the sources) and is an address, \<open>None\<close> for
  \<^verbatim>\<open>NULL\<close>. The member \<^verbatim>\<open>hdrs\<close>, declared with \<^verbatim>\<open>COSE_SIG_HDR_MAX\<close> slots, is named
  \<open>sig_hdrs\<close> here because \<^verbatim>\<open>struct cose_sign\<close> has a member \<^verbatim>\<open>hdrs\<close> too.
\<close>

record cose_signature =
  hdr_protected :: "8 word list"
  signature :: "8 word list"
  signer :: "nat option"
  sig_hdrs :: "cose_hdr list"

text \<open>
  \<^verbatim>\<open>struct cose_sign\<close> (\<^verbatim>\<open>sign.h\<close>, lines 50 to 61). \<^verbatim>\<open>hdrs\<close> is declared with
  \<^verbatim>\<open>COSE_SIGN_HDR_MAX\<close> slots. \<^verbatim>\<open>sigs\<close> is declared with \<^verbatim>\<open>COSE_SIGNATURES_MAX\<close> slots
  and all of them exist whatever \<^verbatim>\<open>num_sigs\<close> says, so the list \<open>sigs\<close> always has that
  length.
\<close>

record cose_sign =
  payload :: "8 word list"
  ext_aad :: "8 word list"
  hdr_prot_ser :: "8 word list"
  flags :: "16 word"
  num_sigs :: "8 word"
  hdrs :: "cose_hdr list"
  sigs :: "cose_signature list"

text \<open>
  The object fits the arrays the structs declare: \<open>sigs\<close> has its
  \<^verbatim>\<open>COSE_SIGNATURES_MAX\<close> slots, and no bucket holds more entries than its array has
  slots.
\<close>

definition cose_sign_fits :: "cose_defines \<Rightarrow> cose_sign \<Rightarrow> bool" where
  "cose_sign_fits cfg sign \<longleftrightarrow>
     length (sigs sign) = COSE_SIGNATURES_MAX cfg \<and>
     length (hdrs sign) \<le> COSE_SIGN_HDR_MAX cfg \<and>
     list_all (\<lambda>s. length (sig_hdrs s) \<le> COSE_SIG_HDR_MAX cfg) (sigs sign)"

section \<open>Header bucket operations of cose/hdr.h\<close>

text \<open>
  Modelled from the spec: the bodies of \<^verbatim>\<open>cose_hdr_add_hdr_value\<close>,
  \<^verbatim>\<open>cose_hdr_add_hdr_string\<close>, \<^verbatim>\<open>cose_hdr_add_hdr_data\<close>, \<^verbatim>\<open>cose_hdr_add_hdr_cbor\<close> and
  \<^verbatim>\<open>cose_hdr_get\<close> are missing from the sources; \<^verbatim>\<open>sign.h\<close> only calls them, passing the
  array and a number of slots. The specification says: "\<open>add\<close> fails with
  \<open>CapacityExceeded\<close> when the bucket is full", "duplicate insertion is not rejected by
  the mutation API", "insertion order is preserved", and "\<open>get(bucket, key)\<close> returns the
  first matching entry or not found", "Lookup is first-match ordered scan". The bucket is
  full when its occupancy has reached the number of slots the caller passed.
\<close>

definition cose_hdr_add :: "cose_hdr list \<Rightarrow> nat \<Rightarrow> cose_hdr \<Rightarrow> cose_err \<times> cose_hdr list" where
  "cose_hdr_add start num h =
     (if num \<le> length start then (CapacityExceeded, start) else (COSE_OK, start @ [h]))"

definition cose_hdr_add_hdr_value ::
  "cose_hdr list \<Rightarrow> nat \<Rightarrow> 32 word \<Rightarrow> 8 word \<Rightarrow> 32 word \<Rightarrow> cose_err \<times> cose_hdr list" where
  "cose_hdr_add_hdr_value start num k fl val =
     cose_hdr_add start num
       \<lparr>key = k, hdr_flags = fl, hdr_type = COSE_HDR_TYPE_INT, v = V_value val\<rparr>"

definition cose_hdr_add_hdr_string ::
  "cose_hdr list \<Rightarrow> nat \<Rightarrow> 32 word \<Rightarrow> 8 word \<Rightarrow> string \<Rightarrow> cose_err \<times> cose_hdr list" where
  "cose_hdr_add_hdr_string start num k fl str =
     cose_hdr_add start num
       \<lparr>key = k, hdr_flags = fl, hdr_type = COSE_HDR_TYPE_TSTR, v = V_str str\<rparr>"

definition cose_hdr_add_hdr_data ::
  "cose_hdr list \<Rightarrow> nat \<Rightarrow> 32 word \<Rightarrow> 8 word \<Rightarrow> 8 word list \<Rightarrow> cose_err \<times> cose_hdr list" where
  "cose_hdr_add_hdr_data start num k fl data =
     cose_hdr_add start num
       \<lparr>key = k, hdr_flags = fl, hdr_type = COSE_HDR_TYPE_BSTR, v = V_data data\<rparr>"

definition cose_hdr_add_hdr_cbor ::
  "cose_hdr list \<Rightarrow> nat \<Rightarrow> 32 word \<Rightarrow> 8 word \<Rightarrow> nat \<Rightarrow> cose_err \<times> cose_hdr list" where
  "cose_hdr_add_hdr_cbor start num k fl cbor =
     cose_hdr_add start num
       \<lparr>key = k, hdr_flags = fl, hdr_type = COSE_HDR_TYPE_CBOR, v = V_cbor cbor\<rparr>"

text \<open>
  The ordered scan: the index of the first entry with the key, \<open>None\<close> for the C
  function's \<^verbatim>\<open>NULL\<close>. \<^verbatim>\<open>cose_hdr_get\<close> looks at no more than the \<open>num\<close> slots it was
  given.
\<close>

fun hdr_scan :: "cose_hdr list \<Rightarrow> 32 word \<Rightarrow> nat option" where
  "hdr_scan [] k = None"
| "hdr_scan (h # hs) k = (if key h = k then Some 0 else map_option Suc (hdr_scan hs k))"

definition cose_hdr_get :: "cose_hdr list \<Rightarrow> nat \<Rightarrow> 32 word \<Rightarrow> nat option" where
  "cose_hdr_get hdr num k = hdr_scan (take num hdr) k"

section \<open>Header setters of cose/sign.h\<close>

text \<open>
  Each setter mutates \<^verbatim>\<open>*sign\<close> and returns a code; the model returns the code together
  with the object after the call. The body setters (\<^verbatim>\<open>sign.h\<close>, lines 283 to 342) pass
  \<^verbatim>\<open>sign->hdrs\<close> and \<^verbatim>\<open>COSE_SIGN_HDR_MAX\<close>.
\<close>

definition cose_sign_add_hdr_value ::
  "cose_defines \<Rightarrow> cose_sign \<Rightarrow> 32 word \<Rightarrow> 8 word \<Rightarrow> 32 word \<Rightarrow> cose_err \<times> cose_sign" where
  "cose_sign_add_hdr_value cfg sign k fl val =
     (case cose_hdr_add_hdr_value (hdrs sign) (COSE_SIGN_HDR_MAX cfg) k fl val of
        (res, hs) \<Rightarrow> (res, sign\<lparr>hdrs := hs\<rparr>))"

definition cose_sign_add_hdr_string ::
  "cose_defines \<Rightarrow> cose_sign \<Rightarrow> 32 word \<Rightarrow> 8 word \<Rightarrow> string \<Rightarrow> cose_err \<times> cose_sign" where
  "cose_sign_add_hdr_string cfg sign k fl str =
     (case cose_hdr_add_hdr_string (hdrs sign) (COSE_SIGN_HDR_MAX cfg) k fl str of
        (res, hs) \<Rightarrow> (res, sign\<lparr>hdrs := hs\<rparr>))"

definition cose_sign_add_hdr_data ::
  "cose_defines \<Rightarrow> cose_sign \<Rightarrow> 32 word \<Rightarrow> 8 word \<Rightarrow> 8 word list \<Rightarrow> cose_err \<times> cose_sign" where
  "cose_sign_add_hdr_data cfg sign k fl data =
     (case cose_hdr_add_hdr_data (hdrs sign) (COSE_SIGN_HDR_MAX cfg) k fl data of
        (res, hs) \<Rightarrow> (res, sign\<lparr>hdrs := hs\<rparr>))"

definition cose_sign_add_hdr_cbor ::
  "cose_defines \<Rightarrow> cose_sign \<Rightarrow> 32 word \<Rightarrow> 8 word \<Rightarrow> nat \<Rightarrow> cose_err \<times> cose_sign" where
  "cose_sign_add_hdr_cbor cfg sign k fl cbor =
     (case cose_hdr_add_hdr_cbor (hdrs sign) (COSE_SIGN_HDR_MAX cfg) k fl cbor of
        (res, hs) \<Rightarrow> (res, sign\<lparr>hdrs := hs\<rparr>))"

text \<open>
  The signature setters (\<^verbatim>\<open>sign.h\<close>, lines 360 to 434) take the slot index as a
  \<^verbatim>\<open>uint8_t\<close>, refuse \<^verbatim>\<open>idx >= COSE_SIGNATURES_MAX\<close>, and otherwise pass
  \<^verbatim>\<open>sign->sigs[idx].hdrs\<close> together with \<^verbatim>\<open>COSE_SIGN_HDR_MAX\<close>, as the source has it.
  \<open>sig_store\<close> writes a bucket back into slot \<open>i\<close>.
\<close>

definition sig_store :: "cose_sign \<Rightarrow> nat \<Rightarrow> cose_hdr list \<Rightarrow> cose_sign" where
  "sig_store sign i hs = sign\<lparr>sigs := (sigs sign)[i := (sigs sign ! i)\<lparr>sig_hdrs := hs\<rparr>]\<rparr>"

definition cose_sign_sig_add_hdr_value ::
  "cose_defines \<Rightarrow> cose_sign \<Rightarrow> 8 word \<Rightarrow> 32 word \<Rightarrow> 8 word \<Rightarrow> 32 word \<Rightarrow> cose_err \<times> cose_sign" where
  "cose_sign_sig_add_hdr_value cfg sign idx k fl val =
     (if COSE_SIGNATURES_MAX cfg \<le> unat idx then (COSE_ERR_INVALID_PARAM, sign)
      else case cose_hdr_add_hdr_value (sig_hdrs (sigs sign ! unat idx))
                  (COSE_SIGN_HDR_MAX cfg) k fl val of
             (res, hs) \<Rightarrow> (res, sig_store sign (unat idx) hs))"

definition cose_sign_sig_add_hdr_string ::
  "cose_defines \<Rightarrow> cose_sign \<Rightarrow> 8 word \<Rightarrow> 32 word \<Rightarrow> 8 word \<Rightarrow> string \<Rightarrow> cose_err \<times> cose_sign" where
  "cose_sign_sig_add_hdr_string cfg sign idx k fl str =
     (if COSE_SIGNATURES_MAX cfg \<le> unat idx then (COSE_ERR_INVALID_PARAM, sign)
      else case cose_hdr_add_hdr_string (sig_hdrs (sigs sign ! unat idx))
                  (COSE_SIGN_HDR_MAX cfg) k fl str of
             (res, hs) \<Rightarrow> (res, sig_store sign (unat idx) hs))"

definition cose_sign_sig_add_hdr_data ::
  "cose_defines \<Rightarrow> cose_sign \<Rightarrow> 8 word \<Rightarrow> 32 word \<Rightarrow> 8 word \<Rightarrow> 8 word list \<Rightarrow> cose_err \<times> cose_sign" where
  "cose_sign_sig_add_hdr_data cfg sign idx k fl data =
     (if COSE_SIGNATURES_MAX cfg \<le> unat idx then (COSE_ERR_INVALID_PARAM, sign)
      else case cose_hdr_add_hdr_data (sig_hdrs (sigs sign ! unat idx))
                  (COSE_SIGN_HDR_MAX cfg) k fl data of
             (res, hs) \<Rightarrow> (res, sig_store sign (unat idx) hs))"

definition cose_sign_sig_add_hdr_cbor ::
  "cose_defines \<Rightarrow> cose_sign \<Rightarrow> 8 word \<Rightarrow> 32 word \<Rightarrow> 8 word \<Rightarrow> nat \<Rightarrow> cose_err \<times> cose_sign" where
  "cose_sign_sig_add_hdr_cbor cfg sign idx k fl cbor =
     (if COSE_SIGNATURES_MAX cfg \<le> unat idx then (COSE_ERR_INVALID_PARAM, sign)
      else case cose_hdr_add_hdr_cbor (sig_hdrs (sigs sign ! unat idx))
                  (COSE_SIGN_HDR_MAX cfg) k fl cbor of
             (res, hs) \<Rightarrow> (res, sig_store sign (unat idx) hs))"

text \<open>
  \<^verbatim>\<open>cose_sign_set_ct\<close> (\<^verbatim>\<open>sign.h\<close>, lines 450 to 464): look the content type header up in
  the body bucket; add it as a protected integer header when there is none, otherwise
  overwrite \<^verbatim>\<open>v.value\<close>, or the protected flag into \<^verbatim>\<open>flags\<close> and set \<^verbatim>\<open>type\<close>, in the
  entry the lookup returned.
\<close>

definition set_ct_entry :: "cose_defines \<Rightarrow> cose_hdr \<Rightarrow> 32 word \<Rightarrow> cose_hdr" where
  "set_ct_entry cfg hdr val =
     hdr\<lparr>v := V_value val,
         hdr_flags := hdr_flags hdr OR COSE_HDR_FLAGS_PROTECTED cfg,
         hdr_type := COSE_HDR_TYPE_INT\<rparr>"

definition cose_sign_set_ct :: "cose_defines \<Rightarrow> cose_sign \<Rightarrow> 32 word \<Rightarrow> cose_err \<times> cose_sign" where
  "cose_sign_set_ct cfg sign val =
     (case cose_hdr_get (hdrs sign) (COSE_SIGN_HDR_MAX cfg) (COSE_HDR_CONTENT_TYPE cfg) of
        None \<Rightarrow>
          cose_sign_add_hdr_value cfg sign (COSE_HDR_CONTENT_TYPE cfg)
            (COSE_HDR_FLAGS_PROTECTED cfg) val
      | Some i \<Rightarrow>
          (COSE_OK, sign\<lparr>hdrs := (hdrs sign)[i := set_ct_entry cfg (hdrs sign ! i) val]\<rparr>))"

section \<open>Notions used in the statements\<close>

text \<open>
  The entry each setter stores, by the kind of value it is given: the integer setter
  stores an \<^verbatim>\<open>int\<close> entry, the string setter a text entry, the data setter a byte
  string entry and the CBOR setter an embedded item.
\<close>

fun hdr_entry :: "32 word \<Rightarrow> 8 word \<Rightarrow> cose_hdr_v \<Rightarrow> cose_hdr" where
  "hdr_entry k fl (V_value val) =
     \<lparr>key = k, hdr_flags = fl, hdr_type = COSE_HDR_TYPE_INT, v = V_value val\<rparr>"
| "hdr_entry k fl (V_str str) =
     \<lparr>key = k, hdr_flags = fl, hdr_type = COSE_HDR_TYPE_TSTR, v = V_str str\<rparr>"
| "hdr_entry k fl (V_data data) =
     \<lparr>key = k, hdr_flags = fl, hdr_type = COSE_HDR_TYPE_BSTR, v = V_data data\<rparr>"
| "hdr_entry k fl (V_cbor cbor) =
     \<lparr>key = k, hdr_flags = fl, hdr_type = COSE_HDR_TYPE_CBOR, v = V_cbor cbor\<rparr>"

text \<open>
  \<open>body_setter\<close> and \<open>sig_setter\<close> are not functions of the library: each selects, by
  the kind of value, one of the four setters of \<^verbatim>\<open>sign.h\<close>, so that a statement about
  \<open>body_setter\<close> (or \<open>sig_setter\<close>) for every value is a statement about all four body
  (or signature) setters.
\<close>

fun body_setter ::
  "cose_defines \<Rightarrow> cose_sign \<Rightarrow> 32 word \<Rightarrow> 8 word \<Rightarrow> cose_hdr_v \<Rightarrow> cose_err \<times> cose_sign" where
  "body_setter cfg sign k fl (V_value val) = cose_sign_add_hdr_value cfg sign k fl val"
| "body_setter cfg sign k fl (V_str str) = cose_sign_add_hdr_string cfg sign k fl str"
| "body_setter cfg sign k fl (V_data data) = cose_sign_add_hdr_data cfg sign k fl data"
| "body_setter cfg sign k fl (V_cbor cbor) = cose_sign_add_hdr_cbor cfg sign k fl cbor"

fun sig_setter ::
  "cose_defines \<Rightarrow> cose_sign \<Rightarrow> 8 word \<Rightarrow> 32 word \<Rightarrow> 8 word \<Rightarrow> cose_hdr_v \<Rightarrow> cose_err \<times> cose_sign" where
  "sig_setter cfg sign idx k fl (V_value val) = cose_sign_sig_add_hdr_value cfg sign idx k fl val"
| "sig_setter cfg sign idx k fl (V_str str) = cose_sign_sig_add_hdr_string cfg sign idx k fl str"
| "sig_setter cfg sign idx k fl (V_data data) = cose_sign_sig_add_hdr_data cfg sign idx k fl data"
| "sig_setter cfg sign idx k fl (V_cbor cbor) = cose_sign_sig_add_hdr_cbor cfg sign idx k fl cbor"

text \<open>
  Entry \<open>i\<close> is the first one of the bucket, in insertion order, that carries the key.
\<close>

definition first_match :: "cose_hdr list \<Rightarrow> 32 word \<Rightarrow> nat \<Rightarrow> bool" where
  "first_match hs k i \<longleftrightarrow> i < length hs \<and> key (hs ! i) = k \<and> (\<forall>j<i. key (hs ! j) \<noteq> k)"

text \<open>
  The content type headers of the body bucket, in order; what it means for an entry to
  hold the content type \<open>val\<close> the way \<^verbatim>\<open>cose_sign_set_ct\<close> leaves it (integer typed,
  protected flag set); and a caller invoking \<^verbatim>\<open>cose_sign_set_ct\<close> once per value of a list,
  ignoring the return codes.
\<close>

definition ct_hdrs :: "cose_defines \<Rightarrow> cose_sign \<Rightarrow> cose_hdr list" where
  "ct_hdrs cfg sign = filter (\<lambda>h. key h = COSE_HDR_CONTENT_TYPE cfg) (hdrs sign)"

definition ct_holds :: "cose_defines \<Rightarrow> cose_hdr \<Rightarrow> 32 word \<Rightarrow> bool" where
  "ct_holds cfg h val \<longleftrightarrow>
     v h = V_value val \<and> hdr_type h = COSE_HDR_TYPE_INT \<and>
     hdr_flags h AND COSE_HDR_FLAGS_PROTECTED cfg = COSE_HDR_FLAGS_PROTECTED cfg"

fun set_ct_calls :: "cose_defines \<Rightarrow> cose_sign \<Rightarrow> 32 word list \<Rightarrow> cose_sign" where
  "set_ct_calls cfg sign [] = sign"
| "set_ct_calls cfg sign (val # vals) =
     set_ct_calls cfg (snd (cose_sign_set_ct cfg sign val)) vals"

section \<open>Example builds and objects\<close>

text \<open>
  The value-initialised object a caller starts from: every member zero, every bucket
  empty, all signature slots present.
\<close>

definition cose_signature_zero :: cose_signature where
  "cose_signature_zero = \<lparr>hdr_protected = [], signature = [], signer = None, sig_hdrs = []\<rparr>"

definition cose_sign_zero :: "cose_defines \<Rightarrow> cose_sign" where
  "cose_sign_zero cfg =
     \<lparr>payload = [], ext_aad = [], hdr_prot_ser = [], flags = 0, num_sigs = 0, hdrs = [],
      sigs = replicate (COSE_SIGNATURES_MAX cfg) cose_signature_zero\<rparr>"

text \<open>
  Three builds, each with four signature slots: four body header slots and four header
  slots per signature; four body header slots and two per signature; two body header
  slots and four per signature. The content type label is 3, as in the
  test vector of \<^verbatim>\<open>tests/suit.c\<close>, whose protected body header \<^verbatim>\<open>a1 03 18 2a\<close> the test
  reads back as content type 42.
\<close>

definition build_4_4 :: cose_defines where
  "build_4_4 = \<lparr>COSE_SIGNATURES_MAX = 4, COSE_SIGN_HDR_MAX = 4, COSE_SIG_HDR_MAX = 4,
                 COSE_HDR_FLAGS_PROTECTED = 1, COSE_HDR_CONTENT_TYPE = 3\<rparr>"

definition build_4_2 :: cose_defines where
  "build_4_2 = \<lparr>COSE_SIGNATURES_MAX = 4, COSE_SIGN_HDR_MAX = 4, COSE_SIG_HDR_MAX = 2,
                 COSE_HDR_FLAGS_PROTECTED = 1, COSE_HDR_CONTENT_TYPE = 3\<rparr>"

definition build_2_4 :: cose_defines where
  "build_2_4 = \<lparr>COSE_SIGNATURES_MAX = 4, COSE_SIGN_HDR_MAX = 2, COSE_SIG_HDR_MAX = 4,
                 COSE_HDR_FLAGS_PROTECTED = 1, COSE_HDR_CONTENT_TYPE = 3\<rparr>"

text \<open>
  A body bucket with one unprotected, text-valued content type header between an
  algorithm and a key identifier header; one with two
  content type headers, reached by two calls of \<^verbatim>\<open>cose_sign_add_hdr_value\<close>; a full one
  without a content type header.
\<close>

definition body_str_ct :: cose_sign where
  "body_str_ct = (cose_sign_zero build_4_4)
     \<lparr>hdrs := [\<lparr>key = 1, hdr_flags = 1, hdr_type = COSE_HDR_TYPE_INT, v = V_value (- 8)\<rparr>,
               \<lparr>key = 3, hdr_flags = 0, hdr_type = COSE_HDR_TYPE_TSTR,
                 v = V_str ''text/plain''\<rparr>,
               \<lparr>key = 4, hdr_flags = 0, hdr_type = COSE_HDR_TYPE_BSTR, v = V_data [49, 49]\<rparr>]\<rparr>"

definition body_two_ct :: cose_sign where
  "body_two_ct =
     snd (cose_sign_add_hdr_value build_4_4
            (snd (cose_sign_add_hdr_value build_4_4 (cose_sign_zero build_4_4) 3 0 10)) 3 0 11)"

definition body_full :: cose_sign where
  "body_full = (cose_sign_zero build_4_4)
     \<lparr>hdrs := [\<lparr>key = 1, hdr_flags = 1, hdr_type = COSE_HDR_TYPE_INT, v = V_value (- 8)\<rparr>,
               \<lparr>key = 4, hdr_flags = 0, hdr_type = COSE_HDR_TYPE_BSTR, v = V_data [49, 49]\<rparr>,
               \<lparr>key = 5, hdr_flags = 0, hdr_type = COSE_HDR_TYPE_BSTR, v = V_data [0, 1]\<rparr>,
               \<lparr>key = 6, hdr_flags = 0, hdr_type = COSE_HDR_TYPE_BSTR, v = V_data [2]\<rparr>]\<rparr>"

text \<open>
  Signature slot 0 after an algorithm and a key identifier header were added through the
  signature setters: in the build with two header slots per signature, where the slot's
  bucket is then full, and in the build with four header slots per signature, where two
  of its four slots are then free.
\<close>

definition sig_two :: cose_sign where
  "sig_two =
     snd (cose_sign_sig_add_hdr_data build_4_2
            (snd (cose_sign_sig_add_hdr_value build_4_2 (cose_sign_zero build_4_2) 0 1 1 (- 8)))
            0 4 0 [49, 49])"

definition sig_half :: cose_sign where
  "sig_half =
     snd (cose_sign_sig_add_hdr_data build_2_4
            (snd (cose_sign_sig_add_hdr_value build_2_4 (cose_sign_zero build_2_4) 0 1 1 (- 8)))
            0 4 0 [49, 49])"

section \<open>The setters in terms of the bucket insertion\<close>

lemma body_setter_eq:
  "body_setter cfg sign k fl x =
     (case cose_hdr_add (hdrs sign) (COSE_SIGN_HDR_MAX cfg) (hdr_entry k fl x) of
        (res, hs) \<Rightarrow> (res, sign\<lparr>hdrs := hs\<rparr>))"
  by (cases x)
    (simp_all add: cose_sign_add_hdr_value_def cose_sign_add_hdr_string_def
      cose_sign_add_hdr_data_def cose_sign_add_hdr_cbor_def cose_hdr_add_hdr_value_def
      cose_hdr_add_hdr_string_def cose_hdr_add_hdr_data_def cose_hdr_add_hdr_cbor_def)

lemma sig_setter_eq:
  "sig_setter cfg sign idx k fl x =
     (if COSE_SIGNATURES_MAX cfg \<le> unat idx then (COSE_ERR_INVALID_PARAM, sign)
      else case cose_hdr_add (sig_hdrs (sigs sign ! unat idx)) (COSE_SIGN_HDR_MAX cfg)
                  (hdr_entry k fl x) of
             (res, hs) \<Rightarrow> (res, sig_store sign (unat idx) hs))"
  by (cases x)
    (simp_all add: cose_sign_sig_add_hdr_value_def cose_sign_sig_add_hdr_string_def
      cose_sign_sig_add_hdr_data_def cose_sign_sig_add_hdr_cbor_def cose_hdr_add_hdr_value_def
      cose_hdr_add_hdr_string_def cose_hdr_add_hdr_data_def cose_hdr_add_hdr_cbor_def)

lemma fits_body: "cose_sign_fits cfg sign \<Longrightarrow> length (hdrs sign) \<le> COSE_SIGN_HDR_MAX cfg"
  by (simp add: cose_sign_fits_def)

text \<open>
  The body setters keep every bucket within its array: they check the bound the array
  \<^verbatim>\<open>hdrs\<close> of \<^verbatim>\<open>struct cose_sign\<close> is declared with.
\<close>

lemma body_setter_fits:
  "cose_sign_fits cfg sign \<Longrightarrow> cose_sign_fits cfg (snd (body_setter cfg sign k fl x))"
  by (simp add: body_setter_eq cose_hdr_add_def cose_sign_fits_def)

section \<open>The ordered scan\<close>

lemma hdr_scan_None: "hdr_scan hs k = None \<longleftrightarrow> k \<notin> key ` set hs"
  by (induction hs) auto

lemma hdr_scan_Some: "hdr_scan hs k = Some i \<Longrightarrow> first_match hs k i"
proof (induction hs arbitrary: i)
  case Nil
  then show ?case by simp
next
  case (Cons h hs)
  show ?case
  proof (cases "key h = k")
    case True
    with Cons.prems show ?thesis by (simp add: first_match_def)
  next
    case False
    with Cons.prems obtain i' where i': "hdr_scan hs k = Some i'" "i = Suc i'"
      by auto
    from Cons.IH [OF i'(1)] False i'(2) show ?thesis
      by (auto simp: first_match_def less_Suc_eq_0_disj)
  qed
qed

lemma hdr_scan_append:
  "hdr_scan (hs @ ys) k =
     (case hdr_scan hs k of None \<Rightarrow> map_option (\<lambda>i. length hs + i) (hdr_scan ys k)
      | Some i \<Rightarrow> Some i)"
proof (induction hs)
  case Nil
  show ?case by (cases "hdr_scan ys k") simp_all
next
  case (Cons h hs)
  then show ?case
    by (cases "hdr_scan hs k"; cases "hdr_scan ys k") simp_all
qed

lemma hdr_scan_filter:
  "hdr_scan hs k = Some i \<Longrightarrow>
     filter (\<lambda>h. key h = k) (take i hs) = [] \<and>
     filter (\<lambda>h. key h = k) hs = hs ! i # filter (\<lambda>h. key h = k) (drop (Suc i) hs)"
proof (induction hs arbitrary: i)
  case Nil
  then show ?case by simp
next
  case (Cons h hs)
  show ?case
  proof (cases "key h = k")
    case True
    with Cons.prems show ?thesis by simp
  next
    case False
    with Cons.prems obtain i' where i': "hdr_scan hs k = Some i'" "i = Suc i'"
      by auto
    from Cons.IH [OF i'(1)] False i'(2) show ?thesis by simp
  qed
qed

text \<open>
  Overwriting the entry the scan found by one with the same key moves neither the
  scan's answer nor the other entries with that key.
\<close>

lemma hdr_scan_update:
  assumes "hdr_scan hs k = Some i" and "key h' = k"
  shows "hdr_scan (hs[i := h']) k = Some i"
    and "filter (\<lambda>h. key h = k) (hs[i := h']) = h' # tl (filter (\<lambda>h. key h = k) hs)"
proof -
  from hdr_scan_Some [OF assms(1)] have i: "i < length hs"
    by (simp add: first_match_def)
  have upd: "hs[i := h'] = take i hs @ h' # drop (Suc i) hs"
    using i by (rule upd_conv_take_nth_drop)
  from hdr_scan_filter [OF assms(1)]
  have none: "filter (\<lambda>h. key h = k) (take i hs) = []"
    and all: "filter (\<lambda>h. key h = k) hs = hs ! i # filter (\<lambda>h. key h = k) (drop (Suc i) hs)"
    by simp_all
  from none have "k \<notin> key ` set (take i hs)"
    by (auto simp: filter_empty_conv)
  then have "hdr_scan (take i hs) k = None"
    by (simp add: hdr_scan_None)
  then show "hdr_scan (hs[i := h']) k = Some i"
    using i assms(2) by (simp add: upd hdr_scan_append min_def)
  show "filter (\<lambda>h. key h = k) (hs[i := h']) = h' # tl (filter (\<lambda>h. key h = k) hs)"
    using none all assms(2) by (simp add: upd)
qed

lemma first_match_append: "first_match hs k i \<Longrightarrow> first_match (hs @ ys) k i"
  by (auto simp: first_match_def nth_append)

text \<open>
  A bucket below the bound the insertion checks takes a second entry with a key it
  already holds, and a scan over at least one slot more than it held still answers with
  the earlier entry.
\<close>

lemma bucket_duplicate:
  assumes free: "length hs < num" and bound: "length hs < num'" and present: "k \<in> key ` set hs"
  shows "cose_hdr_add hs num (hdr_entry k fl x) = (COSE_OK, hs @ [hdr_entry k fl x]) \<and>
         (\<exists>i. cose_hdr_get (hs @ [hdr_entry k fl x]) num' k = Some i \<and>
              first_match (hs @ [hdr_entry k fl x]) k i \<and> i < length hs)"
proof -
  from present obtain i where i: "hdr_scan hs k = Some i"
    by (cases "hdr_scan hs k") (auto simp: hdr_scan_None)
  then have fm: "first_match hs k i"
    by (rule hdr_scan_Some)
  from bound have "cose_hdr_get (hs @ [hdr_entry k fl x]) num' k = Some i"
    using i by (simp add: cose_hdr_get_def hdr_scan_append)
  moreover have "first_match (hs @ [hdr_entry k fl x]) k i"
    using fm by (rule first_match_append)
  moreover have "i < length hs"
    using fm by (simp add: first_match_def)
  ultimately show ?thesis
    using free by (auto simp: cose_hdr_add_def)
qed

section \<open>Setting the content type\<close>

lemma set_ct_entry_key [simp]: "key (set_ct_entry cfg h val) = key h"
  by (simp add: set_ct_entry_def)

lemma set_ct_entry_idem [simp]:
  "set_ct_entry cfg (set_ct_entry cfg h val) val = set_ct_entry cfg h val"
  by (simp add: set_ct_entry_def or.assoc)

lemma ct_holds_entry [simp]: "ct_holds cfg (set_ct_entry cfg h val) val"
  by (simp add: ct_holds_def set_ct_entry_def)

lemma ct_hdrs_Nil:
  "ct_hdrs cfg sign = [] \<longleftrightarrow> hdr_scan (hdrs sign) (COSE_HDR_CONTENT_TYPE cfg) = None"
  by (auto simp: ct_hdrs_def hdr_scan_None filter_empty_conv image_iff)

text \<open>The two branches of \<open>cose_sign_set_ct\<close> on a body bucket that fits its array.\<close>

lemma set_ct_found:
  assumes "length (hdrs sign) \<le> COSE_SIGN_HDR_MAX cfg"
    and "hdr_scan (hdrs sign) (COSE_HDR_CONTENT_TYPE cfg) = Some i"
  shows "cose_sign_set_ct cfg sign val =
           (COSE_OK, sign\<lparr>hdrs := (hdrs sign)[i := set_ct_entry cfg (hdrs sign ! i) val]\<rparr>)"
  using assms by (simp add: cose_sign_set_ct_def cose_hdr_get_def)

lemma set_ct_absent:
  assumes "length (hdrs sign) \<le> COSE_SIGN_HDR_MAX cfg"
    and "hdr_scan (hdrs sign) (COSE_HDR_CONTENT_TYPE cfg) = None"
  shows "cose_sign_set_ct cfg sign val =
           (if length (hdrs sign) < COSE_SIGN_HDR_MAX cfg
            then (COSE_OK, sign\<lparr>hdrs := hdrs sign @
                    [\<lparr>key = COSE_HDR_CONTENT_TYPE cfg, hdr_flags = COSE_HDR_FLAGS_PROTECTED cfg,
                      hdr_type = COSE_HDR_TYPE_INT, v = V_value val\<rparr>]\<rparr>)
            else (CapacityExceeded, sign))"
  using assms
  by (simp add: cose_sign_set_ct_def cose_hdr_get_def cose_sign_add_hdr_value_def
      cose_hdr_add_hdr_value_def cose_hdr_add_def)

lemma set_ct_fits:
  assumes "cose_sign_fits cfg sign"
  shows "cose_sign_fits cfg (snd (cose_sign_set_ct cfg sign val))"
proof (cases "hdr_scan (hdrs sign) (COSE_HDR_CONTENT_TYPE cfg)")
  case None
  with assms show ?thesis
    by (simp add: set_ct_absent fits_body) (simp add: cose_sign_fits_def)
next
  case (Some i)
  with assms show ?thesis
    by (simp add: set_ct_found fits_body) (simp add: cose_sign_fits_def)
qed

lemma set_ct_present:
  assumes fits: "cose_sign_fits cfg sign" and ex: "ct_hdrs cfg sign \<noteq> []"
  shows "fst (cose_sign_set_ct cfg sign val) = COSE_OK"
    and "length (hdrs (snd (cose_sign_set_ct cfg sign val))) = length (hdrs sign)"
    and "ct_hdrs cfg (snd (cose_sign_set_ct cfg sign val)) =
           set_ct_entry cfg (hd (ct_hdrs cfg sign)) val # tl (ct_hdrs cfg sign)"
proof -
  from ex obtain i where i: "hdr_scan (hdrs sign) (COSE_HDR_CONTENT_TYPE cfg) = Some i"
    by (cases "hdr_scan (hdrs sign) (COSE_HDR_CONTENT_TYPE cfg)") (auto simp: ct_hdrs_Nil)
  note call = set_ct_found [OF fits_body [OF fits] i]
  from hdr_scan_Some [OF i] have k: "key (hdrs sign ! i) = COSE_HDR_CONTENT_TYPE cfg"
    by (simp add: first_match_def)
  from hdr_scan_filter [OF i]
  have first: "hd (filter (\<lambda>h. key h = COSE_HDR_CONTENT_TYPE cfg) (hdrs sign)) = hdrs sign ! i"
    by simp
  show "fst (cose_sign_set_ct cfg sign val) = COSE_OK"
    by (simp add: call)
  show "length (hdrs (snd (cose_sign_set_ct cfg sign val))) = length (hdrs sign)"
    by (simp add: call)
  show "ct_hdrs cfg (snd (cose_sign_set_ct cfg sign val)) =
           set_ct_entry cfg (hd (ct_hdrs cfg sign)) val # tl (ct_hdrs cfg sign)"
    using hdr_scan_update(2) [OF i, of "set_ct_entry cfg (hdrs sign ! i) val"] k
    by (simp add: call ct_hdrs_def first)
qed

lemma set_ct_new:
  assumes fits: "cose_sign_fits cfg sign" and none: "ct_hdrs cfg sign = []"
    and free: "length (hdrs sign) < COSE_SIGN_HDR_MAX cfg"
  shows "fst (cose_sign_set_ct cfg sign val) = COSE_OK"
    and "ct_hdrs cfg (snd (cose_sign_set_ct cfg sign val)) =
           [\<lparr>key = COSE_HDR_CONTENT_TYPE cfg, hdr_flags = COSE_HDR_FLAGS_PROTECTED cfg,
             hdr_type = COSE_HDR_TYPE_INT, v = V_value val\<rparr>]"
proof -
  from none have n: "hdr_scan (hdrs sign) (COSE_HDR_CONTENT_TYPE cfg) = None"
    by (simp add: ct_hdrs_Nil)
  note call = set_ct_absent [OF fits_body [OF fits] n]
  show "fst (cose_sign_set_ct cfg sign val) = COSE_OK"
    using free by (simp add: call)
  from none show "ct_hdrs cfg (snd (cose_sign_set_ct cfg sign val)) =
           [\<lparr>key = COSE_HDR_CONTENT_TYPE cfg, hdr_flags = COSE_HDR_FLAGS_PROTECTED cfg,
             hdr_type = COSE_HDR_TYPE_INT, v = V_value val\<rparr>]"
    using free by (simp add: call ct_hdrs_def)
qed

lemma set_ct_full:
  assumes fits: "cose_sign_fits cfg sign" and none: "ct_hdrs cfg sign = []"
    and full: "length (hdrs sign) = COSE_SIGN_HDR_MAX cfg"
  shows "cose_sign_set_ct cfg sign val = (CapacityExceeded, sign)"
proof -
  from none have n: "hdr_scan (hdrs sign) (COSE_HDR_CONTENT_TYPE cfg) = None"
    by (simp add: ct_hdrs_Nil)
  show ?thesis
    using full by (simp add: set_ct_absent [OF fits_body [OF fits] n])
qed

lemma set_ct_once:
  assumes fits: "cose_sign_fits cfg sign" and le1: "length (ct_hdrs cfg sign) \<le> 1"
    and room: "ct_hdrs cfg sign \<noteq> [] \<or> length (hdrs sign) < COSE_SIGN_HDR_MAX cfg"
  shows "\<exists>h. ct_hdrs cfg (snd (cose_sign_set_ct cfg sign val)) = [h] \<and> ct_holds cfg h val"
proof (cases "ct_hdrs cfg sign = []")
  case True
  with room have free: "length (hdrs sign) < COSE_SIGN_HDR_MAX cfg"
    by simp
  show ?thesis
    by (simp add: set_ct_new(2) [OF fits True free] ct_holds_def)
next
  case False
  with le1 have "tl (ct_hdrs cfg sign) = []"
    by (cases "ct_hdrs cfg sign") simp_all
  then show ?thesis
    by (simp add: set_ct_present(3) [OF fits False])
qed

text \<open>
  The exact object each branch leaves: the entry the scan found, overwritten where it
  stands, or one entry more at the end.
\<close>

lemma set_ct_exact_found:
  assumes fits: "cose_sign_fits cfg sign" and ex: "ct_hdrs cfg sign \<noteq> []"
  shows "\<exists>i. first_match (hdrs sign) (COSE_HDR_CONTENT_TYPE cfg) i \<and>
           cose_sign_set_ct cfg sign val =
             (COSE_OK, sign\<lparr>hdrs := (hdrs sign)[i := (hdrs sign ! i)
                \<lparr>v := V_value val,
                 hdr_flags := hdr_flags (hdrs sign ! i) OR COSE_HDR_FLAGS_PROTECTED cfg,
                 hdr_type := COSE_HDR_TYPE_INT\<rparr>]\<rparr>)"
proof -
  from ex obtain i where i: "hdr_scan (hdrs sign) (COSE_HDR_CONTENT_TYPE cfg) = Some i"
    by (cases "hdr_scan (hdrs sign) (COSE_HDR_CONTENT_TYPE cfg)") (auto simp: ct_hdrs_Nil)
  from hdr_scan_Some [OF i] set_ct_found [OF fits_body [OF fits] i, of val]
  show ?thesis
    by (auto simp: set_ct_entry_def)
qed

lemma set_ct_exact_new:
  assumes fits: "cose_sign_fits cfg sign" and none: "ct_hdrs cfg sign = []"
    and free: "length (hdrs sign) < COSE_SIGN_HDR_MAX cfg"
  shows "cose_sign_set_ct cfg sign val =
           (COSE_OK, sign\<lparr>hdrs := hdrs sign @
              [\<lparr>key = COSE_HDR_CONTENT_TYPE cfg, hdr_flags = COSE_HDR_FLAGS_PROTECTED cfg,
                hdr_type = COSE_HDR_TYPE_INT, v = V_value val\<rparr>]\<rparr>)"
proof -
  from none have n: "hdr_scan (hdrs sign) (COSE_HDR_CONTENT_TYPE cfg) = None"
    by (simp add: ct_hdrs_Nil)
  show ?thesis
    using free by (simp add: set_ct_absent [OF fits_body [OF fits] n])
qed

text \<open>
  No call touches an entry with another key, or another member of the object.
\<close>

lemma filter_other_update:
  assumes "i < length hs" and "key (hs ! i) = k" and "key h' = k"
  shows "filter (\<lambda>h. key h \<noteq> k) (hs[i := h']) = filter (\<lambda>h. key h \<noteq> k) hs"
proof -
  have "filter (\<lambda>h. key h \<noteq> k) (take i hs @ h' # drop (Suc i) hs) =
        filter (\<lambda>h. key h \<noteq> k) (take i hs @ hs ! i # drop (Suc i) hs)"
    using assms(2,3) by simp
  then show ?thesis
    using assms(1) by (simp add: upd_conv_take_nth_drop id_take_nth_drop [symmetric])
qed

lemma set_ct_others:
  assumes fits: "cose_sign_fits cfg sign"
  shows "filter (\<lambda>h. key h \<noteq> COSE_HDR_CONTENT_TYPE cfg) (hdrs (snd (cose_sign_set_ct cfg sign val))) =
           filter (\<lambda>h. key h \<noteq> COSE_HDR_CONTENT_TYPE cfg) (hdrs sign)"
    and "(snd (cose_sign_set_ct cfg sign val))\<lparr>hdrs := hdrs sign\<rparr> = sign"
proof -
  show "filter (\<lambda>h. key h \<noteq> COSE_HDR_CONTENT_TYPE cfg) (hdrs (snd (cose_sign_set_ct cfg sign val))) =
           filter (\<lambda>h. key h \<noteq> COSE_HDR_CONTENT_TYPE cfg) (hdrs sign)"
  proof (cases "hdr_scan (hdrs sign) (COSE_HDR_CONTENT_TYPE cfg)")
    case None
    then show ?thesis
      by (simp add: set_ct_absent [OF fits_body [OF fits]])
  next
    case (Some i)
    from hdr_scan_Some [OF Some]
    have "i < length (hdrs sign)" "key (hdrs sign ! i) = COSE_HDR_CONTENT_TYPE cfg"
      by (simp_all add: first_match_def)
    then show ?thesis
      by (simp add: set_ct_found [OF fits_body [OF fits] Some] filter_other_update)
  qed
  show "(snd (cose_sign_set_ct cfg sign val))\<lparr>hdrs := hdrs sign\<rparr> = sign"
    by (cases "hdr_scan (hdrs sign) (COSE_HDR_CONTENT_TYPE cfg)")
      (simp_all add: set_ct_absent [OF fits_body [OF fits]] set_ct_found [OF fits_body [OF fits]])
qed

lemma set_ct_calls_others:
  assumes "cose_sign_fits cfg sign"
  shows "filter (\<lambda>h. key h \<noteq> COSE_HDR_CONTENT_TYPE cfg) (hdrs (set_ct_calls cfg sign vals)) =
           filter (\<lambda>h. key h \<noteq> COSE_HDR_CONTENT_TYPE cfg) (hdrs sign) \<and>
         (set_ct_calls cfg sign vals)\<lparr>hdrs := hdrs sign\<rparr> = sign"
  using assms
proof (induction vals arbitrary: sign)
  case Nil
  then show ?case by simp
next
  case (Cons val vals)
  let ?s = "snd (cose_sign_set_ct cfg sign val)"
  let ?t = "set_ct_calls cfg ?s vals"
  from Cons.IH [OF set_ct_fits [OF Cons.prems]]
  have ih: "filter (\<lambda>h. key h \<noteq> COSE_HDR_CONTENT_TYPE cfg) (hdrs ?t) =
           filter (\<lambda>h. key h \<noteq> COSE_HDR_CONTENT_TYPE cfg) (hdrs ?s)"
    and fr: "?t\<lparr>hdrs := hdrs ?s\<rparr> = ?s"
    by simp_all
  have "?t\<lparr>hdrs := hdrs sign\<rparr> = (?t\<lparr>hdrs := hdrs ?s\<rparr>)\<lparr>hdrs := hdrs sign\<rparr>"
    by simp
  also have "\<dots> = ?s\<lparr>hdrs := hdrs sign\<rparr>"
    by (simp only: fr)
  also have "\<dots> = sign"
    by (rule set_ct_others(2) [OF Cons.prems])
  finally have frame: "?t\<lparr>hdrs := hdrs sign\<rparr> = sign" .
  from ih set_ct_others(1) [OF Cons.prems, of val] frame show ?case
    by simp
qed

text \<open>
  After the first call there is one content type header, and every later call finds and
  overwrites it: induction on the list of values, the object generalised.
\<close>

lemma set_ct_calls_last:
  assumes "cose_sign_fits cfg sign" and "length (ct_hdrs cfg sign) \<le> 1"
    and "ct_hdrs cfg sign \<noteq> [] \<or> length (hdrs sign) < COSE_SIGN_HDR_MAX cfg"
    and "vals \<noteq> []"
  shows "\<exists>h. ct_hdrs cfg (set_ct_calls cfg sign vals) = [h] \<and> ct_holds cfg h (last vals)"
  using assms
proof (induction vals arbitrary: sign)
  case Nil
  then show ?case by simp
next
  case (Cons val vals)
  let ?s = "snd (cose_sign_set_ct cfg sign val)"
  from set_ct_once [OF Cons.prems(1-3), of val]
  obtain h where h: "ct_hdrs cfg ?s = [h]" "ct_holds cfg h val"
    by blast
  show ?case
  proof (cases "vals = []")
    case True
    with h show ?thesis by simp
  next
    case False
    from h(1) have "length (ct_hdrs cfg ?s) \<le> 1" "ct_hdrs cfg ?s \<noteq> []"
      by simp_all
    from Cons.IH [OF set_ct_fits [OF Cons.prems(1)] this(1) disjI1 [OF this(2)] False]
    show ?thesis using False by simp
  qed
qed

lemma set_ct_twice:
  assumes fits: "cose_sign_fits cfg sign"
  shows "cose_sign_set_ct cfg (snd (cose_sign_set_ct cfg sign val)) val =
           cose_sign_set_ct cfg sign val"
proof (cases "hdr_scan (hdrs sign) (COSE_HDR_CONTENT_TYPE cfg)")
  case None
  note call = set_ct_absent [OF fits_body [OF fits] None]
  show ?thesis
  proof (cases "length (hdrs sign) < COSE_SIGN_HDR_MAX cfg")
    case True
    let ?e = "\<lparr>key = COSE_HDR_CONTENT_TYPE cfg, hdr_flags = COSE_HDR_FLAGS_PROTECTED cfg,
               hdr_type = COSE_HDR_TYPE_INT, v = V_value val\<rparr>"
    let ?s = "sign\<lparr>hdrs := hdrs sign @ [?e]\<rparr>"
    have s: "cose_sign_set_ct cfg sign val = (COSE_OK, ?s)"
      using True by (simp add: call)
    have scan: "hdr_scan (hdrs ?s) (COSE_HDR_CONTENT_TYPE cfg) = Some (length (hdrs sign))"
      using None by (simp add: hdr_scan_append)
    have len: "length (hdrs ?s) \<le> COSE_SIGN_HDR_MAX cfg"
      using True by simp
    have "set_ct_entry cfg ?e val = ?e"
      by (simp add: set_ct_entry_def)
    then show ?thesis
      by (simp add: s set_ct_found [OF len scan])
  next
    case False
    then show ?thesis by (simp add: call)
  qed
next
  case (Some i)
  note call = set_ct_found [OF fits_body [OF fits] Some]
  let ?s = "sign\<lparr>hdrs := (hdrs sign)[i := set_ct_entry cfg (hdrs sign ! i) val]\<rparr>"
  from hdr_scan_Some [OF Some]
  have k: "key (hdrs sign ! i) = COSE_HDR_CONTENT_TYPE cfg" and i: "i < length (hdrs sign)"
    by (simp_all add: first_match_def)
  have scan: "hdr_scan (hdrs ?s) (COSE_HDR_CONTENT_TYPE cfg) = Some i"
    using hdr_scan_update(1) [OF Some, of "set_ct_entry cfg (hdrs sign ! i) val"] k by simp
  have len: "length (hdrs ?s) \<le> COSE_SIGN_HDR_MAX cfg"
    using fits_body [OF fits] by simp
  show ?thesis
    using i by (simp add: call set_ct_found [OF len scan])
qed

section \<open>Evaluating the examples\<close>

lemma replicate_4: "replicate 4 x = [x, x, x, x]"
  by (simp add: numeral_eq_Suc)

lemma list_update_numeral: "(x # xs)[numeral n := y] = x # xs[pred_numeral n := y]"
  by (simp add: numeral_eq_Suc)

lemmas example_defs =
  build_4_4_def build_4_2_def build_2_4_def cose_sign_zero_def cose_signature_zero_def
  cose_sign_fits_def
  replicate_4 list_update_numeral

lemmas setter_defs =
  cose_sign_sig_add_hdr_value_def cose_sign_sig_add_hdr_string_def
  cose_sign_sig_add_hdr_data_def cose_sign_sig_add_hdr_cbor_def
  cose_sign_add_hdr_value_def cose_sign_add_hdr_string_def
  cose_sign_add_hdr_data_def cose_sign_add_hdr_cbor_def
  cose_hdr_add_hdr_value_def cose_hdr_add_hdr_string_def cose_hdr_add_hdr_data_def
  cose_hdr_add_hdr_cbor_def cose_hdr_add_def sig_store_def

lemma body_two_ct_eq:
  "body_two_ct = (cose_sign_zero build_4_4)
     \<lparr>hdrs := [\<lparr>key = 3, hdr_flags = 0, hdr_type = COSE_HDR_TYPE_INT, v = V_value 10\<rparr>,
               \<lparr>key = 3, hdr_flags = 0, hdr_type = COSE_HDR_TYPE_INT, v = V_value 11\<rparr>]\<rparr>"
  by (simp add: body_two_ct_def setter_defs build_4_4_def cose_sign_zero_def)

lemma sig_two_eq:
  "sig_two = (cose_sign_zero build_4_2)
     \<lparr>sigs := [cose_signature_zero
                 \<lparr>sig_hdrs := [\<lparr>key = 1, hdr_flags = 1, hdr_type = COSE_HDR_TYPE_INT,
                                v = V_value (- 8)\<rparr>,
                               \<lparr>key = 4, hdr_flags = 0, hdr_type = COSE_HDR_TYPE_BSTR,
                                v = V_data [49, 49]\<rparr>]\<rparr>,
               cose_signature_zero, cose_signature_zero, cose_signature_zero]\<rparr>"
  by (simp add: sig_two_def setter_defs build_4_2_def cose_sign_zero_def cose_signature_zero_def
      replicate_4)

lemma sig_half_eq:
  "sig_half = (cose_sign_zero build_2_4)
     \<lparr>sigs := [cose_signature_zero
                 \<lparr>sig_hdrs := [\<lparr>key = 1, hdr_flags = 1, hdr_type = COSE_HDR_TYPE_INT,
                                v = V_value (- 8)\<rparr>,
                               \<lparr>key = 4, hdr_flags = 0, hdr_type = COSE_HDR_TYPE_BSTR,
                                v = V_data [49, 49]\<rparr>]\<rparr>,
               cose_signature_zero, cose_signature_zero, cose_signature_zero]\<rparr>"
  by (simp add: sig_half_def setter_defs build_2_4_def cose_sign_zero_def cose_signature_zero_def
      replicate_4)

section \<open>The claims\<close>

text \<open>
  Claim C4. Every header-add operation is meant to keep the bucket it writes into within
  the declared size of its array and to fail once that array is full. The signature
  setters do not: they pass \<^verbatim>\<open>COSE_SIGN_HDR_MAX\<close>, the size of the body array, for the
  array \<^verbatim>\<open>sigs[idx].hdrs\<close>, which is declared with \<^verbatim>\<open>COSE_SIG_HDR_MAX\<close> slots. In a build
  with four body slots and two slots per signature, signature slot 0 is full after two
  insertions, the object still fits its arrays, and a third call of
  \<^verbatim>\<open>cose_sign_sig_add_hdr_value\<close> on that slot returns \<^verbatim>\<open>COSE_OK\<close> and leaves three
  entries in a bucket of two slots: the object no longer fits its arrays.
\<close>

theorem sig_bucket_bound_mismatch:
  "cose_sign_fits build_4_2 sig_two \<and>
   length (sig_hdrs (sigs sig_two ! 0)) = COSE_SIG_HDR_MAX build_4_2 \<and>
   fst (cose_sign_sig_add_hdr_value build_4_2 sig_two 0 5 0 9) = COSE_OK \<and>
   length (sig_hdrs (sigs (snd (cose_sign_sig_add_hdr_value build_4_2 sig_two 0 5 0 9)) ! 0)) = 3 \<and>
   \<not> cose_sign_fits build_4_2 (snd (cose_sign_sig_add_hdr_value build_4_2 sig_two 0 5 0 9))"
  by (simp add: sig_two_eq example_defs setter_defs)

text \<open>
  Where the occupancy is below the bound the setter checks, a key the bucket already holds
  is no obstacle: each of the eight setters appends the entry, and a lookup of the key
  still answers with the earlier entry. For the body bucket that bound is the size of its
  array.
\<close>

lemma duplicate_key_below_bound:
  assumes fits: "cose_sign_fits cfg sign"
  shows
    "(length (hdrs sign) < COSE_SIGN_HDR_MAX cfg \<and> k \<in> key ` set (hdrs sign) \<longrightarrow>
        body_setter cfg sign k fl x =
          (COSE_OK, sign\<lparr>hdrs := hdrs sign @ [hdr_entry k fl x]\<rparr>) \<and>
        (\<exists>i. cose_hdr_get (hdrs sign @ [hdr_entry k fl x]) (COSE_SIGN_HDR_MAX cfg) k = Some i \<and>
             first_match (hdrs sign @ [hdr_entry k fl x]) k i \<and> i < length (hdrs sign))) \<and>
     (unat idx < COSE_SIGNATURES_MAX cfg \<and>
      length (sig_hdrs (sigs sign ! unat idx)) < COSE_SIGN_HDR_MAX cfg \<and>
      length (sig_hdrs (sigs sign ! unat idx)) < COSE_SIG_HDR_MAX cfg \<and>
      k \<in> key ` set (sig_hdrs (sigs sign ! unat idx)) \<longrightarrow>
        sig_setter cfg sign idx k fl x =
          (COSE_OK, sig_store sign (unat idx)
                      (sig_hdrs (sigs sign ! unat idx) @ [hdr_entry k fl x])) \<and>
        (\<exists>i. cose_hdr_get (sig_hdrs (sigs sign ! unat idx) @ [hdr_entry k fl x])
                (COSE_SIG_HDR_MAX cfg) k = Some i \<and>
             first_match (sig_hdrs (sigs sign ! unat idx) @ [hdr_entry k fl x]) k i \<and>
             i < length (sig_hdrs (sigs sign ! unat idx))))"
proof (intro conjI impI)
  assume a: "length (hdrs sign) < COSE_SIGN_HDR_MAX cfg \<and> k \<in> key ` set (hdrs sign)"
  from a bucket_duplicate [of "hdrs sign" "COSE_SIGN_HDR_MAX cfg" "COSE_SIGN_HDR_MAX cfg" k fl x]
  show "body_setter cfg sign k fl x =
          (COSE_OK, sign\<lparr>hdrs := hdrs sign @ [hdr_entry k fl x]\<rparr>)"
    by (simp add: body_setter_eq)
  from a bucket_duplicate [of "hdrs sign" "COSE_SIGN_HDR_MAX cfg" "COSE_SIGN_HDR_MAX cfg" k fl x]
  show "\<exists>i. cose_hdr_get (hdrs sign @ [hdr_entry k fl x]) (COSE_SIGN_HDR_MAX cfg) k = Some i \<and>
             first_match (hdrs sign @ [hdr_entry k fl x]) k i \<and> i < length (hdrs sign)"
    by simp
next
  let ?hs = "sig_hdrs (sigs sign ! unat idx)"
  assume a: "unat idx < COSE_SIGNATURES_MAX cfg \<and>
      length ?hs < COSE_SIGN_HDR_MAX cfg \<and> length ?hs < COSE_SIG_HDR_MAX cfg \<and>
      k \<in> key ` set ?hs"
  from a bucket_duplicate [of ?hs "COSE_SIGN_HDR_MAX cfg" "COSE_SIG_HDR_MAX cfg" k fl x]
  show "sig_setter cfg sign idx k fl x =
          (COSE_OK, sig_store sign (unat idx) (?hs @ [hdr_entry k fl x]))"
    by (simp add: sig_setter_eq)
  from a bucket_duplicate [of ?hs "COSE_SIGN_HDR_MAX cfg" "COSE_SIG_HDR_MAX cfg" k fl x]
  show "\<exists>i. cose_hdr_get (?hs @ [hdr_entry k fl x]) (COSE_SIG_HDR_MAX cfg) k = Some i \<and>
             first_match (?hs @ [hdr_entry k fl x]) k i \<and> i < length ?hs"
    by simp
qed

text \<open>
  Claim C8. A header bucket with free capacity is meant to take a second entry with a key
  it already holds, whichever setter adds it, and to answer a lookup of that key with the
  first entry in insertion order. The body setters do (lemma \<open>duplicate_key_below_bound\<close>).
  The signature setters do not in every build, by the defect of claim C4: they compare the
  occupancy with \<^verbatim>\<open>COSE_SIGN_HDR_MAX\<close>, not with the \<^verbatim>\<open>COSE_SIG_HDR_MAX\<close> slots of the
  bucket. In a build with two body slots and four slots per signature, slot 0 holds two
  entries, one of them with key 4, and has two free slots; the object fits its arrays;
  yet \<^verbatim>\<open>cose_sign_sig_add_hdr_data\<close> with key 4 is refused with the capacity error and the
  object is left as it was.
\<close>

theorem sig_duplicate_refused:
  "cose_sign_fits build_2_4 sig_half \<and>
   length (sig_hdrs (sigs sig_half ! 0)) = 2 \<and>
   length (sig_hdrs (sigs sig_half ! 0)) < COSE_SIG_HDR_MAX build_2_4 \<and>
   4 \<in> key ` set (sig_hdrs (sigs sig_half ! 0)) \<and>
   cose_sign_sig_add_hdr_data build_2_4 sig_half 0 4 0 [50] = (CapacityExceeded, sig_half)"
  by (simp add: sig_half_eq example_defs setter_defs)

text \<open>
  Claim C9. Each of the four signature setters called with
  \<^verbatim>\<open>idx >= COSE_SIGNATURES_MAX\<close> returns \<^verbatim>\<open>COSE_ERR_INVALID_PARAM\<close> and leaves the object
  as it was. An index below \<^verbatim>\<open>COSE_SIGNATURES_MAX\<close> is never answered with
  \<^verbatim>\<open>COSE_ERR_INVALID_PARAM\<close>, and \<^verbatim>\<open>num_sigs\<close> plays no part: with any other value \<open>n\<close>
  of \<^verbatim>\<open>num_sigs\<close> the call returns the same code and makes the same change. So the index
  is accepted also when it is at or beyond \<^verbatim>\<open>num_sigs\<close>; where the addressed slot has a
  free entry the call returns \<^verbatim>\<open>COSE_OK\<close>, appends the entry to that slot's bucket and
  leaves \<^verbatim>\<open>num_sigs\<close> alone.
\<close>

theorem sig_add_hdr_index_check:
  assumes fits: "cose_sign_fits cfg sign"
  shows
    "(COSE_SIGNATURES_MAX cfg \<le> unat idx \<longrightarrow>
        sig_setter cfg sign idx k fl x = (COSE_ERR_INVALID_PARAM, sign)) \<and>
     (unat idx < COSE_SIGNATURES_MAX cfg \<longrightarrow>
        fst (sig_setter cfg sign idx k fl x) \<noteq> COSE_ERR_INVALID_PARAM \<and>
        sig_setter cfg (sign\<lparr>num_sigs := n\<rparr>) idx k fl x =
          (fst (sig_setter cfg sign idx k fl x),
           (snd (sig_setter cfg sign idx k fl x))\<lparr>num_sigs := n\<rparr>)) \<and>
     (unat idx < COSE_SIGNATURES_MAX cfg \<and>
      length (sig_hdrs (sigs sign ! unat idx)) < COSE_SIGN_HDR_MAX cfg \<and>
      length (sig_hdrs (sigs sign ! unat idx)) < COSE_SIG_HDR_MAX cfg \<longrightarrow>
        fst (sig_setter cfg sign idx k fl x) = COSE_OK \<and>
        sig_hdrs (sigs (snd (sig_setter cfg sign idx k fl x)) ! unat idx) =
          sig_hdrs (sigs sign ! unat idx) @ [hdr_entry k fl x] \<and>
        num_sigs (snd (sig_setter cfg sign idx k fl x)) = num_sigs sign)"
proof -
  have len: "length (sigs sign) = COSE_SIGNATURES_MAX cfg"
    using fits by (simp add: cose_sign_fits_def)
  show ?thesis
    by (simp add: sig_setter_eq cose_hdr_add_def sig_store_def len)
qed

theorem sig_add_hdr_index_check_witness:
  "cose_sign_fits build_4_4 (cose_sign_zero build_4_4) \<and>
   COSE_SIGNATURES_MAX build_4_4 \<le> unat (4 :: 8 word) \<and>
   cose_sign_sig_add_hdr_value build_4_4 (cose_sign_zero build_4_4) 4 4 0 7 =
     (COSE_ERR_INVALID_PARAM, cose_sign_zero build_4_4) \<and>
   unat (num_sigs (cose_sign_zero build_4_4)) \<le> unat (2 :: 8 word) \<and>
   unat (2 :: 8 word) < COSE_SIGNATURES_MAX build_4_4 \<and>
   fst (cose_sign_sig_add_hdr_data build_4_4 (cose_sign_zero build_4_4) 2 4 0 [1, 2]) = COSE_OK \<and>
   sig_hdrs (sigs (snd (cose_sign_sig_add_hdr_data build_4_4 (cose_sign_zero build_4_4) 2 4 0
                          [1, 2])) ! 2) =
     [\<lparr>key = 4, hdr_flags = 0, hdr_type = COSE_HDR_TYPE_BSTR, v = V_data [1, 2]\<rparr>]"
proof -
  let ?z = "cose_sign_zero build_4_4"
  have fits: "cose_sign_fits build_4_4 ?z"
    by (simp add: example_defs)
  have hi: "COSE_SIGNATURES_MAX build_4_4 \<le> unat (4 :: 8 word)"
    and lo: "unat (2 :: 8 word) < COSE_SIGNATURES_MAX build_4_4"
    and free: "length (sig_hdrs (sigs ?z ! unat (2 :: 8 word))) < COSE_SIGN_HDR_MAX build_4_4"
      "length (sig_hdrs (sigs ?z ! unat (2 :: 8 word))) < COSE_SIG_HDR_MAX build_4_4"
    and none: "unat (num_sigs ?z) \<le> unat (2 :: 8 word)"
    by (simp_all add: example_defs)
  from sig_add_hdr_index_check [OF fits, of 4 4 0 "V_value 7" 0] hi
  have r1: "sig_setter build_4_4 ?z 4 4 0 (V_value 7) = (COSE_ERR_INVALID_PARAM, ?z)"
    by blast
  from sig_add_hdr_index_check [OF fits, of 2 4 0 "V_data [1, 2]" 0] lo free
  have r2: "fst (sig_setter build_4_4 ?z 2 4 0 (V_data [1, 2])) = COSE_OK \<and>
        sig_hdrs (sigs (snd (sig_setter build_4_4 ?z 2 4 0 (V_data [1, 2]))) ! unat (2 :: 8 word)) =
          sig_hdrs (sigs ?z ! unat (2 :: 8 word)) @ [hdr_entry 4 0 (V_data [1, 2])]"
    by blast
  have empty: "sig_hdrs (sigs ?z ! 2) = []"
    by (simp add: example_defs)
  from r1 r2 show ?thesis
    using fits hi lo none by (simp add: empty)
qed

text \<open>
  Claim C10, as stated, fails: "for every Sign Object calling \<^verbatim>\<open>cose_sign_set_ct\<close> any
  number of times leaves exactly one content-type header". A body bucket that was given
  two content type headers through \<^verbatim>\<open>cose_sign_add_hdr_value\<close> still has two after
  \<^verbatim>\<open>cose_sign_set_ct\<close>, and a full body bucket without a content type header has none
  afterwards, the call failing with the capacity error.
\<close>

theorem set_ct_exactly_one_counterexample:
  "cose_sign_fits build_4_4 body_two_ct \<and>
   length (ct_hdrs build_4_4 (set_ct_calls build_4_4 body_two_ct [42])) = 2 \<and>
   cose_sign_fits build_4_4 body_full \<and>
   cose_sign_set_ct build_4_4 body_full 42 = (CapacityExceeded, body_full) \<and>
   ct_hdrs build_4_4 (set_ct_calls build_4_4 body_full [42]) = []"
  by (simp add: body_two_ct_eq body_full_def example_defs ct_hdrs_def cose_sign_set_ct_def
      cose_hdr_get_def set_ct_entry_def setter_defs)

text \<open>
  Claim C10, amended. \<^verbatim>\<open>cose_sign_set_ct\<close> never adds a content type header where one
  exists: it returns \<^verbatim>\<open>COSE_OK\<close> and leaves the object as it was but for the first
  content type header of the body bucket, which is overwritten where it stands (value
  replaced, protected flag set, type forced to integer); the bucket keeps its length and
  every other entry, the other content type headers among them. Where none exists and the
  bucket has a free slot, it returns \<^verbatim>\<open>COSE_OK\<close> and leaves the object as it was but for
  one protected integer content type header appended to the body bucket; where none
  exists and the bucket is full, the call fails with the capacity error and changes
  nothing. Hence, on an object whose body bucket holds at most one content type header,
  and holds one or has a free slot, calling \<^verbatim>\<open>cose_sign_set_ct\<close> once or more leaves
  exactly one content type header, holding the last value, with the headers of other
  keys and the other members of the object as they were; and on every object calling it
  twice with the same value equals calling it once, in the code returned and in the
  object left.
\<close>

theorem set_ct_in_place:
  assumes fits: "cose_sign_fits cfg sign"
  shows
    "(ct_hdrs cfg sign \<noteq> [] \<longrightarrow>
        (\<exists>i. first_match (hdrs sign) (COSE_HDR_CONTENT_TYPE cfg) i \<and>
             cose_sign_set_ct cfg sign val =
               (COSE_OK, sign\<lparr>hdrs := (hdrs sign)[i := (hdrs sign ! i)
                  \<lparr>v := V_value val,
                   hdr_flags := hdr_flags (hdrs sign ! i) OR COSE_HDR_FLAGS_PROTECTED cfg,
                   hdr_type := COSE_HDR_TYPE_INT\<rparr>]\<rparr>)) \<and>
        fst (cose_sign_set_ct cfg sign val) = COSE_OK \<and>
        length (hdrs (snd (cose_sign_set_ct cfg sign val))) = length (hdrs sign) \<and>
        ct_hdrs cfg (snd (cose_sign_set_ct cfg sign val)) =
          set_ct_entry cfg (hd (ct_hdrs cfg sign)) val # tl (ct_hdrs cfg sign) \<and>
        ct_holds cfg (set_ct_entry cfg (hd (ct_hdrs cfg sign)) val) val) \<and>
     (ct_hdrs cfg sign = [] \<and> length (hdrs sign) < COSE_SIGN_HDR_MAX cfg \<longrightarrow>
        cose_sign_set_ct cfg sign val =
          (COSE_OK, sign\<lparr>hdrs := hdrs sign @
             [\<lparr>key = COSE_HDR_CONTENT_TYPE cfg, hdr_flags = COSE_HDR_FLAGS_PROTECTED cfg,
               hdr_type = COSE_HDR_TYPE_INT, v = V_value val\<rparr>]\<rparr>) \<and>
        fst (cose_sign_set_ct cfg sign val) = COSE_OK \<and>
        ct_hdrs cfg (snd (cose_sign_set_ct cfg sign val)) =
          [\<lparr>key = COSE_HDR_CONTENT_TYPE cfg, hdr_flags = COSE_HDR_FLAGS_PROTECTED cfg,
            hdr_type = COSE_HDR_TYPE_INT, v = V_value val\<rparr>]) \<and>
     (ct_hdrs cfg sign = [] \<and> length (hdrs sign) = COSE_SIGN_HDR_MAX cfg \<longrightarrow>
        cose_sign_set_ct cfg sign val = (CapacityExceeded, sign)) \<and>
     (length (ct_hdrs cfg sign) \<le> 1 \<and>
      (ct_hdrs cfg sign \<noteq> [] \<or> length (hdrs sign) < COSE_SIGN_HDR_MAX cfg) \<and> vals \<noteq> [] \<longrightarrow>
        (\<exists>h. ct_hdrs cfg (set_ct_calls cfg sign vals) = [h] \<and> ct_holds cfg h (last vals)) \<and>
        filter (\<lambda>h. key h \<noteq> COSE_HDR_CONTENT_TYPE cfg) (hdrs (set_ct_calls cfg sign vals)) =
          filter (\<lambda>h. key h \<noteq> COSE_HDR_CONTENT_TYPE cfg) (hdrs sign) \<and>
        (set_ct_calls cfg sign vals)\<lparr>hdrs := hdrs sign\<rparr> = sign) \<and>
     cose_sign_set_ct cfg (snd (cose_sign_set_ct cfg sign val)) val =
       cose_sign_set_ct cfg sign val"
proof -
  have found: "ct_hdrs cfg sign \<noteq> [] \<longrightarrow>
        (\<exists>i. first_match (hdrs sign) (COSE_HDR_CONTENT_TYPE cfg) i \<and>
             cose_sign_set_ct cfg sign val =
               (COSE_OK, sign\<lparr>hdrs := (hdrs sign)[i := (hdrs sign ! i)
                  \<lparr>v := V_value val,
                   hdr_flags := hdr_flags (hdrs sign ! i) OR COSE_HDR_FLAGS_PROTECTED cfg,
                   hdr_type := COSE_HDR_TYPE_INT\<rparr>]\<rparr>)) \<and>
        fst (cose_sign_set_ct cfg sign val) = COSE_OK \<and>
        length (hdrs (snd (cose_sign_set_ct cfg sign val))) = length (hdrs sign) \<and>
        ct_hdrs cfg (snd (cose_sign_set_ct cfg sign val)) =
          set_ct_entry cfg (hd (ct_hdrs cfg sign)) val # tl (ct_hdrs cfg sign) \<and>
        ct_holds cfg (set_ct_entry cfg (hd (ct_hdrs cfg sign)) val) val"
    using set_ct_exact_found [OF fits, of val] set_ct_present [OF fits, of val]
    by simp
  have new: "ct_hdrs cfg sign = [] \<and> length (hdrs sign) < COSE_SIGN_HDR_MAX cfg \<longrightarrow>
        cose_sign_set_ct cfg sign val =
          (COSE_OK, sign\<lparr>hdrs := hdrs sign @
             [\<lparr>key = COSE_HDR_CONTENT_TYPE cfg, hdr_flags = COSE_HDR_FLAGS_PROTECTED cfg,
               hdr_type = COSE_HDR_TYPE_INT, v = V_value val\<rparr>]\<rparr>) \<and>
        fst (cose_sign_set_ct cfg sign val) = COSE_OK \<and>
        ct_hdrs cfg (snd (cose_sign_set_ct cfg sign val)) =
          [\<lparr>key = COSE_HDR_CONTENT_TYPE cfg, hdr_flags = COSE_HDR_FLAGS_PROTECTED cfg,
            hdr_type = COSE_HDR_TYPE_INT, v = V_value val\<rparr>]"
    using set_ct_exact_new [OF fits, of val] set_ct_new [OF fits, of val]
    by blast
  have full: "ct_hdrs cfg sign = [] \<and> length (hdrs sign) = COSE_SIGN_HDR_MAX cfg \<longrightarrow>
        cose_sign_set_ct cfg sign val = (CapacityExceeded, sign)"
    using set_ct_full [OF fits, of val] by blast
  have many: "length (ct_hdrs cfg sign) \<le> 1 \<and>
      (ct_hdrs cfg sign \<noteq> [] \<or> length (hdrs sign) < COSE_SIGN_HDR_MAX cfg) \<and> vals \<noteq> [] \<longrightarrow>
        (\<exists>h. ct_hdrs cfg (set_ct_calls cfg sign vals) = [h] \<and> ct_holds cfg h (last vals)) \<and>
        filter (\<lambda>h. key h \<noteq> COSE_HDR_CONTENT_TYPE cfg) (hdrs (set_ct_calls cfg sign vals)) =
          filter (\<lambda>h. key h \<noteq> COSE_HDR_CONTENT_TYPE cfg) (hdrs sign) \<and>
        (set_ct_calls cfg sign vals)\<lparr>hdrs := hdrs sign\<rparr> = sign"
    using set_ct_calls_last [OF fits, of vals] set_ct_calls_others [OF fits, of vals]
    by blast
  from found new full many set_ct_twice [OF fits, of val] show ?thesis
    by (intro conjI)
qed

theorem set_ct_in_place_witness:
  "cose_sign_fits build_4_4 body_str_ct \<and>
   ct_hdrs build_4_4 body_str_ct \<noteq> [] \<and> length (ct_hdrs build_4_4 body_str_ct) \<le> 1 \<and>
   (\<exists>h. ct_hdrs build_4_4 (set_ct_calls build_4_4 body_str_ct [7, 42]) = [h] \<and>
      ct_holds build_4_4 h 42) \<and>
   filter (\<lambda>h. key h \<noteq> 3) (hdrs (set_ct_calls build_4_4 body_str_ct [7, 42])) =
     filter (\<lambda>h. key h \<noteq> 3) (hdrs body_str_ct) \<and>
   (set_ct_calls build_4_4 body_str_ct [7, 42])\<lparr>hdrs := hdrs body_str_ct\<rparr> = body_str_ct \<and>
   hdrs (set_ct_calls build_4_4 body_str_ct [7, 42]) =
     [\<lparr>key = 1, hdr_flags = 1, hdr_type = COSE_HDR_TYPE_INT, v = V_value (- 8)\<rparr>,
      \<lparr>key = 3, hdr_flags = 1, hdr_type = COSE_HDR_TYPE_INT, v = V_value 42\<rparr>,
      \<lparr>key = 4, hdr_flags = 0, hdr_type = COSE_HDR_TYPE_BSTR, v = V_data [49, 49]\<rparr>] \<and>
   cose_sign_fits build_4_4 (cose_sign_zero build_4_4) \<and>
   ct_hdrs build_4_4 (cose_sign_zero build_4_4) = [] \<and>
   length (hdrs (cose_sign_zero build_4_4)) < COSE_SIGN_HDR_MAX build_4_4 \<and>
   cose_sign_set_ct build_4_4 (cose_sign_zero build_4_4) 42 =
     (COSE_OK, (cose_sign_zero build_4_4)
        \<lparr>hdrs := [\<lparr>key = 3, hdr_flags = 1, hdr_type = COSE_HDR_TYPE_INT, v = V_value 42\<rparr>]\<rparr>) \<and>
   cose_sign_fits build_4_4 body_full \<and>
   ct_hdrs build_4_4 body_full = [] \<and>
   length (hdrs body_full) = COSE_SIGN_HDR_MAX build_4_4 \<and>
   cose_sign_set_ct build_4_4 body_full 42 = (CapacityExceeded, body_full)"
proof -
  have one: "cose_sign_fits build_4_4 body_str_ct"
    "ct_hdrs build_4_4 body_str_ct \<noteq> []" "length (ct_hdrs build_4_4 body_str_ct) \<le> 1"
    by (simp_all add: body_str_ct_def example_defs ct_hdrs_def)
  have zero: "cose_sign_fits build_4_4 (cose_sign_zero build_4_4)"
    "ct_hdrs build_4_4 (cose_sign_zero build_4_4) = []"
    "length (hdrs (cose_sign_zero build_4_4)) < COSE_SIGN_HDR_MAX build_4_4"
    by (simp_all add: example_defs ct_hdrs_def)
  have full: "cose_sign_fits build_4_4 body_full"
    "ct_hdrs build_4_4 body_full = []"
    "length (hdrs body_full) = COSE_SIGN_HDR_MAX build_4_4"
    by (simp_all add: body_full_def example_defs ct_hdrs_def)
  have ct: "COSE_HDR_CONTENT_TYPE build_4_4 = 3" "COSE_HDR_FLAGS_PROTECTED build_4_4 = 1"
    by (simp_all add: build_4_4_def)
  from set_ct_in_place [OF one(1), of 7 "[7, 42]"] one(2,3)
  have r1: "(\<exists>h. ct_hdrs build_4_4 (set_ct_calls build_4_4 body_str_ct [7, 42]) = [h] \<and>
      ct_holds build_4_4 h (last [7, 42])) \<and>
      filter (\<lambda>h. key h \<noteq> COSE_HDR_CONTENT_TYPE build_4_4)
        (hdrs (set_ct_calls build_4_4 body_str_ct [7, 42])) =
      filter (\<lambda>h. key h \<noteq> COSE_HDR_CONTENT_TYPE build_4_4) (hdrs body_str_ct) \<and>
      (set_ct_calls build_4_4 body_str_ct [7, 42])\<lparr>hdrs := hdrs body_str_ct\<rparr> = body_str_ct"
    by blast
  from r1 have r1a: "\<exists>h. ct_hdrs build_4_4 (set_ct_calls build_4_4 body_str_ct [7, 42]) = [h] \<and>
      ct_holds build_4_4 h 42"
    by simp
  from r1 have r1b: "filter (\<lambda>h. key h \<noteq> 3) (hdrs (set_ct_calls build_4_4 body_str_ct [7, 42])) =
      filter (\<lambda>h. key h \<noteq> 3) (hdrs body_str_ct)"
    by (simp only: ct)
  from r1 have r1c: "(set_ct_calls build_4_4 body_str_ct [7, 42])\<lparr>hdrs := hdrs body_str_ct\<rparr> =
      body_str_ct"
    by blast
  have ev: "hdrs (set_ct_calls build_4_4 body_str_ct [7, 42]) =
     [\<lparr>key = 1, hdr_flags = 1, hdr_type = COSE_HDR_TYPE_INT, v = V_value (- 8)\<rparr>,
      \<lparr>key = 3, hdr_flags = 1, hdr_type = COSE_HDR_TYPE_INT, v = V_value 42\<rparr>,
      \<lparr>key = 4, hdr_flags = 0, hdr_type = COSE_HDR_TYPE_BSTR, v = V_data [49, 49]\<rparr>]"
    by (simp add: body_str_ct_def example_defs cose_sign_set_ct_def cose_hdr_get_def
        set_ct_entry_def)
  from set_ct_in_place [OF zero(1), of 42 "[42]"] zero(2,3)
  have r2: "cose_sign_set_ct build_4_4 (cose_sign_zero build_4_4) 42 =
      (COSE_OK, (cose_sign_zero build_4_4)\<lparr>hdrs := hdrs (cose_sign_zero build_4_4) @
         [\<lparr>key = COSE_HDR_CONTENT_TYPE build_4_4,
           hdr_flags = COSE_HDR_FLAGS_PROTECTED build_4_4,
           hdr_type = COSE_HDR_TYPE_INT, v = V_value 42\<rparr>]\<rparr>)"
    by blast
  have "hdrs (cose_sign_zero build_4_4) = []"
    by (simp add: cose_sign_zero_def)
  with r2 have r2': "cose_sign_set_ct build_4_4 (cose_sign_zero build_4_4) 42 =
     (COSE_OK, (cose_sign_zero build_4_4)
        \<lparr>hdrs := [\<lparr>key = 3, hdr_flags = 1, hdr_type = COSE_HDR_TYPE_INT, v = V_value 42\<rparr>]\<rparr>)"
    by (simp add: ct)
  from set_ct_in_place [OF full(1), of 42 "[42]"] full(2,3)
  have r3: "cose_sign_set_ct build_4_4 body_full 42 = (CapacityExceeded, body_full)"
    by blast
  show ?thesis
    by (intro conjI one zero full r1a r1b r1c ev r2' r3)
qed

end
